theory Spec2Isabelle
  imports Main
begin

section \<open>The assembler's parser (parser.py)\<close>

text \<open>
  The parsing stage of the assembler takes the tokenised lines of a program and returns
  the instructions with their parsed operands and the symbol table. The functions below
  follow \<^verbatim>\<open>parser.py\<close> one by one. A Python exception is a value of type
  \<open>Exception\<close>, and a function that can raise returns \<open>Exception + 'a\<close> with \<open>Inl\<close> for
  the raised exception. The modules \<^verbatim>\<open>token_enums\<close>, \<^verbatim>\<open>sized_numbers\<close>,
  \<^verbatim>\<open>errors\<close> and \<^verbatim>\<open>parseable\<close> are imported by the parser and are not part of the
  file; what the parser needs of them is modelled from the specification and marked so.
\<close>

subsection \<open>Tokens (token_enums)\<close>

datatype TokenType = INSTRUCTION | REGISTER | UINT | STRING | SYNTAX | LABEL

text \<open>
  Modelled from the spec: the members of the \<^verbatim>\<open>Syntax\<close> enum that the parser names,
  and one constructor for every other member.
\<close>

datatype Syntax = Comma | Colon | LBracket | RBracket | Plus | ShiftLeft | ShiftRight
  | OtherSyntax string

text \<open>Modelled from the spec: a register is one of a fixed set of names.\<close>

datatype Register = Reg string

datatype ShiftType = Shl | Shr

text \<open>
  The classes with a \<^verbatim>\<open>parse\<close> method that the parser has a visitor for:
  \<^verbatim>\<open>parse_Register\<close>, \<^verbatim>\<open>parse_PointerDeref\<close>, \<^verbatim>\<open>parse_Shift\<close>, and
  \<^verbatim>\<open>parse_Uint24 = parse_Uint16 = parse_number\<close>.
\<close>

datatype ParseableType = TRegister | TPointerDeref | TShift | TUint16 | TUint24

text \<open>
  One operand position of an opcode: a single class, or an iterable of alternative
  classes (the two cases \<^verbatim>\<open>parse_args\<close> tells apart with \<^verbatim>\<open>isinstance\<close>).
\<close>

datatype ArgTypes = Single ParseableType | Alternatives "ParseableType list"

text \<open>
  Modelled from the spec: a member of the opcode enum carries its name and, as its value,
  the list of its operand positions. The table of opcodes itself is not needed: every
  INSTRUCTION token brings its member along.
\<close>

datatype InstructionEnum = InstructionEnum (instr_name: string) (instr_value: "ArgTypes list")

text \<open>The payload of a token: an opcode, a register, an int, a str or a syntax member.\<close>

datatype Value = VInstruction InstructionEnum | VRegister Register | VInt int | VStr string
  | VSyntax Syntax

record Token =
  tok_type :: TokenType
  tok_value :: Value
  tok_text :: string
  tok_line :: int

subsection \<open>Sized numbers (sized_numbers)\<close>

datatype SizedNumber = SizedNumber (width: nat) (num: int)

text \<open>Modelled from the spec: \<open>MAX(width) = 2^width - 1\<close>.\<close>

definition num_MAX :: "nat \<Rightarrow> int" where
  "num_MAX w = 2 ^ w - 1"

text \<open>
  Modelled from the spec: a numeric string is a non-empty string of decimal digits, and
  its numeric value is the number it writes.
\<close>

fun digits_value :: "int \<Rightarrow> string \<Rightarrow> int option" where
  "digits_value acc [] = Some acc"
| "digits_value acc (c # cs) =
     (if (48::nat) \<le> of_char c \<and> of_char c \<le> (57::nat)
      then digits_value (10 * acc + (int (of_char c) - 48)) cs
      else None)"

definition numeric_string :: "string \<Rightarrow> int option" where
  "numeric_string s = (if s = [] then None else digits_value 0 s)"

subsection \<open>Errors (errors)\<close>

text \<open>
  The messages the parser builds, one constructor for each f-string of the source, holding
  the values the f-string interpolates.
\<close>

datatype Message =
    EmptyOperand
  | ExtraText string
  | WrongToken string "TokenType list"
  | NumberTooLarge int int string
  | InvalidPointerDereference "Token list"
  | ExpectedPlus string
  | InvalidIncrement string
  | InvalidOperator string
  | WrongArity string nat nat

text \<open>
  Modelled from the spec: an error is a message with its line number
  (\<^verbatim>\<open>format_error\<close>), and \<^verbatim>\<open>collect_errors\<close> makes one failure that lists the
  errors it is given, in their order.
\<close>

datatype ErrorText = Formatted Message int | Collected "ErrorText list"

datatype Exception = ParseError ErrorText | OverflowError | IndexError | AssertionError
  | ValueError | TypeError | UnboundLocalError

definition format_error :: "Message \<Rightarrow> int \<Rightarrow> ErrorText" where
  "format_error message line = Formatted message line"

text \<open>
  Modelled from the spec: \<^verbatim>\<open>ParseError(message, line)\<close> holds the formatted error,
  which is what \<^verbatim>\<open>exc.args[0]\<close> reads back.
\<close>

definition new_ParseError :: "Message \<Rightarrow> int \<Rightarrow> Exception" where
  "new_ParseError message line = ParseError (format_error message line)"

definition collect_errors :: "ErrorText list \<Rightarrow> Exception" where
  "collect_errors errors = ParseError (Collected errors)"

text \<open>
  Modelled from the spec: constructing a sized number from an integer or a numeric string
  fails with the overflow condition when the value is outside \<open>[0, MAX(width)]\<close>. The spec
  does not say what a string that is no number, or another payload, gives; the model
  raises \<^verbatim>\<open>ValueError\<close> and \<^verbatim>\<open>TypeError\<close> there, which no operand parser catches.
  \<open>OverflowError\<close> stands for the source's \<^verbatim>\<open>OverflowError_\<close>.
\<close>

definition in_range :: "nat \<Rightarrow> int \<Rightarrow> Exception + SizedNumber" where
  "in_range w n = (if 0 \<le> n \<and> n \<le> num_MAX w then Inr (SizedNumber w n) else Inl OverflowError)"

definition PositiveSizedNumber :: "nat \<Rightarrow> Value \<Rightarrow> Exception + SizedNumber" where
  "PositiveSizedNumber w v =
     (case v of
        VInt n \<Rightarrow> in_range w n
      | VStr s \<Rightarrow> (case numeric_string s of None \<Rightarrow> Inl ValueError | Some n \<Rightarrow> in_range w n)
      | _ \<Rightarrow> Inl TypeError)"

subsection \<open>Parsed operands\<close>

datatype Shift = Shift (shift_type: ShiftType) (shift_register: Register) (amount: SizedNumber)

datatype Increment = IncNumber SizedNumber | IncShift Shift

datatype PointerDeref = PointerDeref (deref_register: Register) (increment: Increment)

datatype InstructionArg = ArgRegister Register | ArgPointerDeref PointerDeref | ArgShift Shift
  | ArgNumber SizedNumber

datatype Instruction = Instruction (instr_type: InstructionEnum) (instr_args: "InstructionArg list")

record InstructionsNT =
  instructions :: "Instruction list"
  symbol_table :: "string \<rightharpoonup> int"

subsection \<open>Helpers of the operand parsers\<close>

fun comma_split_loop :: "Token list \<Rightarrow> Token list \<Rightarrow> Token list list" where
  "comma_split_loop current_tokens [] = (if current_tokens = [] then [] else [current_tokens])"
| "comma_split_loop current_tokens (token # tokens) =
     (if tok_type token = SYNTAX \<and> tok_value token = VSyntax Comma
      then current_tokens # comma_split_loop [] tokens
      else comma_split_loop (current_tokens @ [token]) tokens)"

definition comma_split :: "Token list \<Rightarrow> Token list list" where
  "comma_split tokens = comma_split_loop [] tokens"

definition empty_token_check :: "Token list \<Rightarrow> int \<Rightarrow> Exception + Token list" where
  "empty_token_check tokens line =
     (if tokens = [] then Inl (new_ParseError EmptyOperand line) else Inr tokens)"

definition extact_token :: "Token list \<Rightarrow> int \<Rightarrow> Exception + Token" where
  "extact_token one_token line =
     (case empty_token_check one_token line of
        Inl e \<Rightarrow> Inl e
      | Inr _ \<Rightarrow>
          if length one_token > 1
          then Inl (new_ParseError (ExtraText (concat (map tok_text (drop 1 one_token)))) line)
          else Inr (one_token ! 0))"

definition token_type_check :: "Token \<Rightarrow> TokenType list \<Rightarrow> int \<Rightarrow> Exception + Token" where
  "token_type_check token token_types line =
     (if tok_type token \<notin> set token_types
      then Inl (new_ParseError (WrongToken (tok_text token) token_types) line)
      else Inr token)"

text \<open>
  \<^verbatim>\<open>extract_token_num\<close>: the handler of the overflow asserts that the payload is an
  int before it builds the message.
\<close>

definition extract_token_num :: "Token \<Rightarrow> nat \<Rightarrow> int \<Rightarrow> Exception + SizedNumber" where
  "extract_token_num token w line =
     (case token_type_check token [UINT, STRING] line of
        Inl e \<Rightarrow> Inl e
      | Inr _ \<Rightarrow>
          (case PositiveSizedNumber w (tok_value token) of
             Inr n \<Rightarrow> Inr n
           | Inl OverflowError \<Rightarrow>
               (case tok_value token of
                  VInt v \<Rightarrow> Inl (new_ParseError (NumberTooLarge v (num_MAX w) (tok_text token)) line)
                | _ \<Rightarrow> Inl AssertionError)
           | Inl e \<Rightarrow> Inl e))"

subsection \<open>The operand parsers\<close>

definition parse_Register :: "Token list \<Rightarrow> int \<Rightarrow> Exception + Register" where
  "parse_Register tokens line =
     (case extact_token tokens line of
        Inl e \<Rightarrow> Inl e
      | Inr t \<Rightarrow>
          (case token_type_check t [REGISTER] line of
             Inl e \<Rightarrow> Inl e
           | Inr token \<Rightarrow>
               (case tok_value token of VRegister r \<Rightarrow> Inr r | _ \<Rightarrow> Inl AssertionError)))"

text \<open>
  Modelled from the spec: \<^verbatim>\<open>Register.parse(token, line)\<close> on one token, as
  \<^verbatim>\<open>parse_PointerDeref\<close> and \<^verbatim>\<open>parse_Shift\<close> call it (the method is defined in
  \<^verbatim>\<open>parseable\<close>, which is not part of the file). The spec says that the token is parsed
  as a Register: the Register parser on the slice that holds this token.
\<close>

definition Register_parse_token :: "Token \<Rightarrow> int \<Rightarrow> Exception + Register" where
  "Register_parse_token token line = parse_Register [token] line"

definition parse_number :: "nat \<Rightarrow> Token list \<Rightarrow> int \<Rightarrow> Exception + SizedNumber" where
  "parse_number w tokens line =
     (case extact_token tokens line of
        Inl e \<Rightarrow> Inl e
      | Inr t \<Rightarrow> extract_token_num t w line)"

text \<open>\<^verbatim>\<open>ShiftType[tokens[1].value.name]\<close>, reached only for the two shift operators.\<close>

definition ShiftType_of :: "Value \<Rightarrow> ShiftType" where
  "ShiftType_of v = (if v = VSyntax ShiftRight then Shr else Shl)"

definition parse_Shift :: "Token list \<Rightarrow> int \<Rightarrow> Exception + Shift" where
  "parse_Shift tokens line =
     (case empty_token_check tokens line of
        Inl e \<Rightarrow> Inl e
      | Inr _ \<Rightarrow>
          (case Register_parse_token (tokens ! 0) line of
             Inl e \<Rightarrow> Inl e
           | Inr register \<Rightarrow>
               if length tokens = 1 then Inr (Shift Shl register (SizedNumber 5 0))
               else if tok_value (tokens ! 1) \<notin> {VSyntax ShiftRight, VSyntax ShiftLeft}
               then Inl (new_ParseError (InvalidOperator (tok_text (tokens ! 1))) line)
               else
                 (case extact_token (drop 2 tokens) line of
                    Inl e \<Rightarrow> Inl e
                  | Inr t \<Rightarrow>
                      (case extract_token_num t 5 line of
                         Inl e \<Rightarrow> Inl e
                       | Inr n \<Rightarrow> Inr (Shift (ShiftType_of (tok_value (tokens ! 1))) register n)))))"

text \<open>
  Modelled from the spec: \<^verbatim>\<open>exception_chain\<close> (of \<^verbatim>\<open>errors\<close>) tries the parsers in
  order on the same tokens; the first success wins, and when every one fails it raises the
  exception it was given. A failure is a \<^verbatim>\<open>ParseError\<close>; any other exception goes up.
\<close>

fun exception_chain ::
  "(Token list \<Rightarrow> int \<Rightarrow> Exception + 'a) list \<Rightarrow> Exception \<Rightarrow> Token list \<Rightarrow> int \<Rightarrow> Exception + 'a"
where
  "exception_chain [] exception tokens line = Inl exception"
| "exception_chain (f # fs) exception tokens line =
     (case f tokens line of
        Inr v \<Rightarrow> Inr v
      | Inl (ParseError _) \<Rightarrow> exception_chain fs exception tokens line
      | Inl e \<Rightarrow> Inl e)"

definition Uint16_parse_increment :: "Token list \<Rightarrow> int \<Rightarrow> Exception + Increment" where
  "Uint16_parse_increment tokens line = map_sum id IncNumber (parse_number 16 tokens line)"

definition Shift_parse_increment :: "Token list \<Rightarrow> int \<Rightarrow> Exception + Increment" where
  "Shift_parse_increment tokens line = map_sum id IncShift (parse_Shift tokens line)"

text \<open>
  \<^verbatim>\<open>parse_PointerDeref\<close>. After the check of the brackets the source reads
  \<^verbatim>\<open>tokens[1]\<close>, which raises \<^verbatim>\<open>IndexError\<close> on a slice of one token (no such slice
  passes the check, since its first token is its last). \<^verbatim>\<open>tokens[3:-1]\<close> is
  \<open>butlast (drop 3 tokens)\<close>.
\<close>

definition parse_PointerDeref :: "Token list \<Rightarrow> int \<Rightarrow> Exception + PointerDeref" where
  "parse_PointerDeref tokens line =
     (case empty_token_check tokens line of
        Inl e \<Rightarrow> Inl e
      | Inr _ \<Rightarrow>
          if tok_value (tokens ! 0) \<noteq> VSyntax LBracket
          then Inl (new_ParseError (InvalidPointerDereference tokens) line)
          else if tok_value (last tokens) \<noteq> VSyntax RBracket
          then Inl (new_ParseError (InvalidPointerDereference tokens) line)
          else if length tokens < 2 then Inl IndexError
          else
            (case Register_parse_token (tokens ! 1) line of
               Inl e \<Rightarrow> Inl e
             | Inr register \<Rightarrow>
                 if length tokens > 3 then
                   (if tok_value (tokens ! 2) \<noteq> VSyntax Plus
                    then Inl (new_ParseError (ExpectedPlus (tok_text (tokens ! 2))) line)
                    else
                      (case exception_chain [Uint16_parse_increment, Shift_parse_increment]
                              (new_ParseError
                                 (InvalidIncrement (concat (map tok_text (butlast (drop 3 tokens)))))
                                 line)
                              (butlast (drop 3 tokens)) line of
                         Inl e \<Rightarrow> Inl e
                       | Inr inc \<Rightarrow> Inr (PointerDeref register inc)))
                 else Inr (PointerDeref register (IncNumber (SizedNumber 16 0)))))"

subsection \<open>The argument dispatcher\<close>

text \<open>
  Modelled from the spec: \<^verbatim>\<open>cls.parse(tokens, line)\<close> runs the visitor of the class
  (\<^verbatim>\<open>parse_Uint24 = parse_Uint16 = parse_number\<close>).
\<close>

definition Parseable_parse :: "ParseableType \<Rightarrow> Token list \<Rightarrow> int \<Rightarrow> Exception + InstructionArg" where
  "Parseable_parse cls tokens line =
     (case cls of
        TRegister \<Rightarrow> map_sum id ArgRegister (parse_Register tokens line)
      | TPointerDeref \<Rightarrow> map_sum id ArgPointerDeref (parse_PointerDeref tokens line)
      | TShift \<Rightarrow> map_sum id ArgShift (parse_Shift tokens line)
      | TUint16 \<Rightarrow> map_sum id ArgNumber (parse_number 16 tokens line)
      | TUint24 \<Rightarrow> map_sum id ArgNumber (parse_number 24 tokens line))"

definition arg_types_tuple :: "ArgTypes \<Rightarrow> ParseableType list" where
  "arg_types_tuple arg_types = (case arg_types of Single t \<Rightarrow> [t] | Alternatives ts \<Rightarrow> ts)"

text \<open>
  The inner loop of \<^verbatim>\<open>parse_args\<close> over the alternatives of one position. It returns
  the parsed operand when an alternative succeeds (\<^verbatim>\<open>break\<close>) and \<open>None\<close> when the loop
  runs out (the \<^verbatim>\<open>else\<close> of the \<^verbatim>\<open>for\<close>), each time with the variable \<^verbatim>\<open>error\<close>,
  which is unbound (\<open>None\<close>) until a handler assigns it. \<^verbatim>\<open>arg[0].line\<close> is evaluated
  inside the \<^verbatim>\<open>try\<close>, whose handler catches \<^verbatim>\<open>ParseError\<close> only.
\<close>

fun try_arg_types ::
  "ParseableType list \<Rightarrow> Token list \<Rightarrow> ErrorText option
     \<Rightarrow> Exception + (InstructionArg option \<times> ErrorText option)"
where
  "try_arg_types [] arg error = Inr (None, error)"
| "try_arg_types (arg_type # arg_types) arg error =
     (case arg of
        [] \<Rightarrow> Inl IndexError
      | token # _ \<Rightarrow>
          (case Parseable_parse arg_type arg (tok_line token) of
             Inr parsed_arg \<Rightarrow> Inr (Some parsed_arg, error)
           | Inl (ParseError e) \<Rightarrow> try_arg_types arg_types arg (Some e)
           | Inl exc \<Rightarrow> Inl exc))"

text \<open>
  The outer loop over the zipped positions and operand groups, with the list
  \<^verbatim>\<open>errors\<close>, the variable \<^verbatim>\<open>error\<close> and the operands yielded so far; after the loop
  the generator raises the collected errors, if any.
\<close>

fun parse_args_loop ::
  "(ArgTypes \<times> Token list) list \<Rightarrow> ErrorText list \<Rightarrow> ErrorText option \<Rightarrow> InstructionArg list
     \<Rightarrow> Exception + InstructionArg list"
where
  "parse_args_loop [] errors error yielded =
     (if errors = [] then Inr yielded else Inl (collect_errors errors))"
| "parse_args_loop ((arg_types, arg) # rest) errors error yielded =
     (case try_arg_types (arg_types_tuple arg_types) arg error of
        Inl exc \<Rightarrow> Inl exc
      | Inr (Some parsed_arg, error') \<Rightarrow>
          parse_args_loop rest errors error'
            (if errors = [] then yielded @ [parsed_arg] else yielded)
      | Inr (None, error') \<Rightarrow>
          (case error' of
             None \<Rightarrow> Inl UnboundLocalError
           | Some e \<Rightarrow> parse_args_loop rest (errors @ [e]) error' yielded))"

definition parse_args :: "ArgTypes list \<Rightarrow> Token list list \<Rightarrow> Exception + InstructionArg list" where
  "parse_args parser_types args = parse_args_loop (zip parser_types args) [] None []"

subsection \<open>The line parser\<close>

text \<open>The local variables of \<^verbatim>\<open>parse\<close>.\<close>

record parse_state =
  st_instructions :: "Instruction list"
  st_symbol_table :: "string \<rightharpoonup> int"
  st_ip :: int
  st_errors :: "ErrorText list"

definition initial_state :: parse_state where
  "initial_state = \<lparr>st_instructions = [], st_symbol_table = Map.empty, st_ip = 0, st_errors = []\<rparr>"

text \<open>The branch of the loop body for a line that ends in a colon.\<close>

definition parse_label_line :: "parse_state \<Rightarrow> Token list \<Rightarrow> Exception + parse_state" where
  "parse_label_line st line =
     (if tok_type (last line) \<noteq> SYNTAX then Inl AssertionError
      else if length line \<noteq> 2 then Inl AssertionError
      else if tok_type (line ! 0) \<noteq> LABEL then Inl AssertionError
      else
        (case tok_value (line ! 0) of
           VStr name \<Rightarrow> Inr (st\<lparr>st_symbol_table := (st_symbol_table st)(name \<mapsto> st_ip st + 1)\<rparr>)
         | _ \<Rightarrow> Inl AssertionError))"

text \<open>
  The branch for any other line: the instruction pointer goes up first, then the arity is
  checked, then the operands are parsed. Nothing catches what \<^verbatim>\<open>list(args)\<close> raises.
\<close>

definition parse_instruction_line :: "parse_state \<Rightarrow> Token list \<Rightarrow> Exception + parse_state" where
  "parse_instruction_line st line =
     (let line_num = tok_line (line ! 0);
          st1 = st\<lparr>st_ip := st_ip st + 32\<rparr>
      in if tok_type (line ! 0) \<noteq> INSTRUCTION then Inl AssertionError
         else
           (case tok_value (line ! 0) of
              VInstruction instruction \<Rightarrow>
                (let raw_args = comma_split (drop 1 line);
                     st2 =
                       (if length raw_args \<noteq> length (instr_value instruction)
                        then st1\<lparr>st_errors := st_errors st1 @
                               [format_error
                                  (WrongArity (instr_name instruction)
                                     (length (instr_value instruction)) (length raw_args))
                                  line_num]\<rparr>
                        else st1)
                 in case parse_args (instr_value instruction) raw_args of
                      Inl exc \<Rightarrow> Inl exc
                    | Inr parsed \<Rightarrow>
                        Inr (st2\<lparr>st_instructions :=
                               st_instructions st2 @ [Instruction instruction parsed]\<rparr>))
            | _ \<Rightarrow> Inl AssertionError))"

text \<open>The loop body; \<^verbatim>\<open>line[0]\<close> raises \<^verbatim>\<open>IndexError\<close> on an empty line.\<close>

definition parse_line :: "parse_state \<Rightarrow> Token list \<Rightarrow> Exception + parse_state" where
  "parse_line st line =
     (if line = [] then Inl IndexError
      else if tok_value (last line) = VSyntax Colon then parse_label_line st line
      else parse_instruction_line st line)"

fun parse_lines :: "parse_state \<Rightarrow> Token list list \<Rightarrow> Exception + parse_state" where
  "parse_lines st [] = Inr st"
| "parse_lines st (line # tokens) =
     (case parse_line st line of
        Inl exc \<Rightarrow> Inl exc
      | Inr st' \<Rightarrow> parse_lines st' tokens)"

definition parse :: "Token list list \<Rightarrow> Exception + InstructionsNT" where
  "parse tokens =
     (case parse_lines initial_state tokens of
        Inl exc \<Rightarrow> Inl exc
      | Inr st \<Rightarrow>
          if st_errors st = []
          then Inr \<lparr>instructions = st_instructions st, symbol_table = st_symbol_table st\<rparr>
          else Inl (collect_errors (st_errors st)))"

subsection \<open>Tokens and lines as the tokenizer hands them over\<close>

text \<open>
  Modelled from the spec: the payload of a token goes with its type (a register for
  REGISTER, an integer for UINT, a string for STRING and for LABEL, a syntax member for
  SYNTAX, an opcode for INSTRUCTION).
\<close>

definition register_token :: "Register \<Rightarrow> string \<Rightarrow> int \<Rightarrow> Token" where
  "register_token r txt l =
     \<lparr>tok_type = REGISTER, tok_value = VRegister r, tok_text = txt, tok_line = l\<rparr>"

definition syntax_token :: "Syntax \<Rightarrow> string \<Rightarrow> int \<Rightarrow> Token" where
  "syntax_token s txt l =
     \<lparr>tok_type = SYNTAX, tok_value = VSyntax s, tok_text = txt, tok_line = l\<rparr>"

definition uint_token :: "int \<Rightarrow> string \<Rightarrow> int \<Rightarrow> Token" where
  "uint_token n txt l =
     \<lparr>tok_type = UINT, tok_value = VInt n, tok_text = txt, tok_line = l\<rparr>"

definition string_token :: "string \<Rightarrow> string \<Rightarrow> int \<Rightarrow> Token" where
  "string_token s txt l =
     \<lparr>tok_type = STRING, tok_value = VStr s, tok_text = txt, tok_line = l\<rparr>"

definition instruction_token :: "InstructionEnum \<Rightarrow> string \<Rightarrow> int \<Rightarrow> Token" where
  "instruction_token i txt l =
     \<lparr>tok_type = INSTRUCTION, tok_value = VInstruction i, tok_text = txt, tok_line = l\<rparr>"

definition label_token :: "string \<Rightarrow> string \<Rightarrow> int \<Rightarrow> Token" where
  "label_token s txt l =
     \<lparr>tok_type = LABEL, tok_value = VStr s, tok_text = txt, tok_line = l\<rparr>"

text \<open>The numeric value that a payload carries: an int, or a numeric string.\<close>

definition numeric_value :: "Value \<Rightarrow> int option" where
  "numeric_value v = (case v of VInt n \<Rightarrow> Some n | VStr s \<Rightarrow> numeric_string s | _ \<Rightarrow> None)"

text \<open>
  A label-definition line for a name: the two tokens that the assertions of \<^verbatim>\<open>parse\<close>
  ask for. Every other non-empty line that does not end in a colon is taken as an
  instruction line.
\<close>

definition label_definition :: "string \<Rightarrow> Token list \<Rightarrow> bool" where
  "label_definition name line =
     (length line = 2 \<and> tok_type (line ! 0) = LABEL \<and> tok_value (line ! 0) = VStr name
      \<and> tok_type (line ! 1) = SYNTAX \<and> tok_value (line ! 1) = VSyntax Colon)"

definition instruction_line :: "Token list \<Rightarrow> bool" where
  "instruction_line line = (line \<noteq> [] \<and> tok_value (last line) \<noteq> VSyntax Colon)"

text \<open>
  Modelled from the spec: the opcode of the spec's example, \<^verbatim>\<open>ADD R1, R2, R3\<close>, with
  three register operands. It is used in examples only.
\<close>

definition ADD :: InstructionEnum where
  "ADD = InstructionEnum ''ADD'' [Single TRegister, Single TRegister, Single TRegister]"

text \<open>Lines and registers used in the examples.\<close>

definition label_line :: "string \<Rightarrow> int \<Rightarrow> Token list" where
  "label_line name l = [label_token name name l, syntax_token Colon '':'' l]"

definition ADD_line :: "Token \<Rightarrow> Token \<Rightarrow> Token \<Rightarrow> int \<Rightarrow> Token list" where
  "ADD_line a b c l =
     [instruction_token ADD ''ADD'' l, a, syntax_token Comma '','' l, b,
      syntax_token Comma '','' l, c]"

definition R1 :: Register where "R1 = Reg ''R1''"
definition R2 :: Register where "R2 = Reg ''R2''"
definition R3 :: Register where "R3 = Reg ''R3''"

section \<open>Properties\<close>


lemmas token_defs = register_token_def syntax_token_def uint_token_def string_token_def
  instruction_token_def label_token_def

lemmas example_defs = label_line_def ADD_line_def ADD_def R1_def R2_def R3_def

lemmas operand_defs = empty_token_check_def new_ParseError_def format_error_def
  extact_token_def token_type_check_def extract_token_num_def PositiveSizedNumber_def
  in_range_def num_MAX_def numeric_string_def parse_Register_def Register_parse_token_def
  parse_number_def ShiftType_of_def parse_Shift_def Uint16_parse_increment_def
  Shift_parse_increment_def parse_PointerDeref_def

lemmas dispatcher_defs = Parseable_parse_def arg_types_tuple_def parse_args_def collect_errors_def
  comma_split_def

lemmas line_defs = parse_line_def parse_label_line_def parse_instruction_line_def parse_def
  initial_state_def

subsection \<open>Sequencing of lines\<close>

lemma parse_lines_append:
  "parse_lines st (xs @ ys) =
     (case parse_lines st xs of Inl exc \<Rightarrow> Inl exc | Inr st' \<Rightarrow> parse_lines st' ys)"
  by (induction xs arbitrary: st) (auto split: sum.splits)

lemma parse_lines_abort:
  "parse_line st line = Inl exc \<Longrightarrow> parse_lines st (line # rest) = Inl exc"
  by simp

lemma two_tokens: "length line = 2 \<Longrightarrow> \<exists>a b. line = [a, b]"
  by (cases line; cases "tl line") auto

lemma parse_line_label_definition:
  assumes "label_definition name line"
  shows "parse_line st line =
           Inr (st\<lparr>st_symbol_table := (st_symbol_table st)(name \<mapsto> st_ip st + 1)\<rparr>)"
proof -
  from assms have "length line = 2" by (simp add: label_definition_def)
  then obtain a b where line: "line = [a, b]" using two_tokens by blast
  with assms show ?thesis
    by (simp add: label_definition_def parse_line_def parse_label_line_def)
qed

lemma parse_line_other_name:
  assumes "parse_line st line = Inr st'" and "\<not> label_definition name line"
  shows "st_symbol_table st' name = st_symbol_table st name"
proof (cases "line \<noteq> [] \<and> tok_value (last line) = VSyntax Colon")
  case True
  with assms(1) have ok: "parse_label_line st line = Inr st'"
    by (simp add: parse_line_def)
  then have len: "length line = 2"
    by (auto simp: parse_label_line_def split: if_splits)
  then obtain a b where line: "line = [a, b]" using two_tokens by blast
  from ok line True assms(2) show ?thesis
    by (auto simp: parse_label_line_def label_definition_def split: if_splits Value.splits)
next
  case False
  with assms(1) have "parse_instruction_line st line = Inr st'"
    by (auto simp: parse_line_def split: if_splits)
  then show ?thesis
    by (auto simp: parse_instruction_line_def Let_def split: if_splits Value.splits sum.splits)
qed

lemma parse_lines_other_names:
  "parse_lines st ls = Inr st' \<Longrightarrow> \<forall>l \<in> set ls. \<not> label_definition name l
     \<Longrightarrow> st_symbol_table st' name = st_symbol_table st name"
proof (induction ls arbitrary: st)
  case Nil
  then show ?case by simp
next
  case (Cons l ls)
  from Cons.prems(1) obtain st1 where l: "parse_line st l = Inr st1"
    and rest: "parse_lines st1 ls = Inr st'"
    by (auto split: sum.splits)
  from Cons.IH [OF rest] Cons.prems(2) have "st_symbol_table st' name = st_symbol_table st1 name"
    by simp
  moreover from parse_line_other_name [OF l] Cons.prems(2)
  have "st_symbol_table st1 name = st_symbol_table st name" by simp
  ultimately show ?case by simp
qed

lemma parse_line_instruction:
  assumes "instruction_line line" and "parse_line st line = Inr st'"
  shows "st_ip st' = st_ip st + 32 \<and> st_symbol_table st' = st_symbol_table st"
proof -
  from assms have "parse_instruction_line st line = Inr st'"
    by (simp add: parse_line_def instruction_line_def)
  then show ?thesis
    by (auto simp: parse_instruction_line_def Let_def split: if_splits Value.splits sum.splits)
qed

lemma parse_line_errors:
  assumes "parse_line st line = Inr st'"
  shows "\<exists>es. st_errors st' = st_errors st @ es"
proof (cases "line \<noteq> [] \<and> tok_value (last line) = VSyntax Colon")
  case True
  with assms have "parse_label_line st line = Inr st'"
    by (simp add: parse_line_def)
  then show ?thesis
    by (auto simp: parse_label_line_def split: if_splits Value.splits)
next
  case False
  with assms have "parse_instruction_line st line = Inr st'"
    by (auto simp: parse_line_def split: if_splits)
  then show ?thesis
    by (auto simp: parse_instruction_line_def Let_def split: if_splits Value.splits sum.splits)
qed

lemma parse_lines_errors:
  "parse_lines st ls = Inr st' \<Longrightarrow> \<exists>es. st_errors st' = st_errors st @ es"
proof (induction ls arbitrary: st)
  case Nil
  then show ?case by simp
next
  case (Cons l ls)
  from Cons.prems obtain st1 where l: "parse_line st l = Inr st1"
    and rest: "parse_lines st1 ls = Inr st'"
    by (auto split: sum.splits)
  from parse_line_errors [OF l] Cons.IH [OF rest] show ?case by auto
qed

subsection \<open>Instruction pointer and symbol table along the lines\<close>

lemma parse_line_ip:
  assumes "parse_line st line = Inr st'"
  shows "st_ip st' = st_ip st + (if instruction_line line then 32 else 0)"
proof (cases "instruction_line line")
  case True
  with parse_line_instruction [OF True assms] show ?thesis by simp
next
  case False
  with assms have "parse_label_line st line = Inr st'"
    by (auto simp: parse_line_def instruction_line_def split: if_splits)
  then have "st_ip st' = st_ip st"
    by (auto simp: parse_label_line_def split: if_splits Value.splits)
  with False show ?thesis by simp
qed

lemma parse_lines_ip:
  "parse_lines st ls = Inr st' \<Longrightarrow>
     st_ip st' = st_ip st + 32 * int (length (filter instruction_line ls))"
proof (induction ls arbitrary: st)
  case Nil
  then show ?case by simp
next
  case (Cons l ls)
  from Cons.prems obtain st1 where l: "parse_line st l = Inr st1"
    and rest: "parse_lines st1 ls = Inr st'"
    by (auto split: sum.splits)
  from parse_line_ip [OF l] Cons.IH [OF rest] show ?case by simp
qed

lemma parse_line_keeps_entry:
  assumes "parse_line st line = Inr st'" and "st_symbol_table st name \<noteq> None"
  shows "st_symbol_table st' name \<noteq> None"
proof (cases "instruction_line line")
  case True
  with parse_line_instruction [OF True assms(1)] assms(2) show ?thesis by simp
next
  case False
  with assms(1) have "parse_label_line st line = Inr st'"
    by (auto simp: parse_line_def instruction_line_def split: if_splits)
  with assms(2) show ?thesis
    by (auto simp: parse_label_line_def split: if_splits Value.splits)
qed

lemma parse_lines_keeps_entry:
  "parse_lines st ls = Inr st' \<Longrightarrow> st_symbol_table st name \<noteq> None
     \<Longrightarrow> st_symbol_table st' name \<noteq> None"
proof (induction ls arbitrary: st)
  case Nil
  then show ?case by simp
next
  case (Cons l ls)
  from Cons.prems(1) obtain st1 where l: "parse_line st l = Inr st1"
    and rest: "parse_lines st1 ls = Inr st'"
    by (auto split: sum.splits)
  from parse_line_keeps_entry [OF l Cons.prems(2)] Cons.IH [OF rest] show ?case by simp
qed

lemma parse_lines_defined:
  "parse_lines st ls = Inr st' \<Longrightarrow> l \<in> set ls \<Longrightarrow> label_definition name l
     \<Longrightarrow> st_symbol_table st' name \<noteq> None"
proof (induction ls arbitrary: st)
  case Nil
  then show ?case by simp
next
  case (Cons a ls)
  from Cons.prems(1) obtain st1 where a: "parse_line st a = Inr st1"
    and rest: "parse_lines st1 ls = Inr st'"
    by (auto split: sum.splits)
  show ?case
  proof (cases "l = a")
    case True
    with a Cons.prems(3) have "st_symbol_table st1 name \<noteq> None"
      by (auto simp: parse_line_label_definition)
    with rest show ?thesis by (rule parse_lines_keeps_entry)
  next
    case False
    with Cons.prems(2) have "l \<in> set ls" by simp
    with Cons.IH [OF rest] Cons.prems(3) show ?thesis by simp
  qed
qed

lemma parse_Inr:
  "parse tokens = Inr result \<Longrightarrow>
     \<exists>st. parse_lines initial_state tokens = Inr st \<and> st_errors st = []
          \<and> result = \<lparr>instructions = st_instructions st, symbol_table = st_symbol_table st\<rparr>"
  by (auto simp: parse_def split: sum.splits if_splits)

subsection \<open>Instruction lines that the loop gets past\<close>

text \<open>
  An instruction line on which the dispatcher does not raise has advanced the instruction
  pointer by 32, also when its arity error was recorded, and a label defined on a later
  line records an address that counts these 32. The second lemma is the line
  \<^verbatim>\<open>ADD R1, R2\<close> (two groups for three positions) followed by a label.
\<close>

lemma ip_advance_on_completed_line:
  assumes "instruction_line line" and "parse_line st line = Inr st'"
    and "tok_value (line ! 0) = VInstruction instruction"
    and "parse_lines st' between = Inr st2" and "label_definition name later"
  shows "st_ip st' = st_ip st + 32
       \<and> (length (comma_split (drop 1 line)) \<noteq> length (instr_value instruction) \<longrightarrow>
            st_errors st' = st_errors st @
              [format_error
                 (WrongArity (instr_name instruction) (length (instr_value instruction))
                    (length (comma_split (drop 1 line))))
                 (tok_line (line ! 0))])
       \<and> (\<exists>st3. parse_lines st (line # between @ [later]) = Inr st3
              \<and> st_symbol_table st3 name =
                  Some (st_ip st + 32 + 32 * int (length (filter instruction_line between)) + 1))"
proof (intro conjI impI)
  from assms(1,2) show ip: "st_ip st' = st_ip st + 32"
    using parse_line_instruction by blast
  from assms(4) have ip2: "st_ip st2 = st_ip st' + 32 * int (length (filter instruction_line between))"
    by (rule parse_lines_ip)
  from assms(5) have "parse_line st2 later =
      Inr (st2\<lparr>st_symbol_table := (st_symbol_table st2)(name \<mapsto> st_ip st2 + 1)\<rparr>)"
    by (rule parse_line_label_definition)
  with assms(2,4) have "parse_lines st (line # between @ [later]) =
      Inr (st2\<lparr>st_symbol_table := (st_symbol_table st2)(name \<mapsto> st_ip st2 + 1)\<rparr>)"
    by (simp add: parse_lines_append)
  with ip ip2 show "\<exists>st3. parse_lines st (line # between @ [later]) = Inr st3
      \<and> st_symbol_table st3 name =
          Some (st_ip st + 32 + 32 * int (length (filter instruction_line between)) + 1)"
    by simp
next
  assume "length (comma_split (drop 1 line)) \<noteq> length (instr_value instruction)"
  moreover from assms(1,2) have "parse_instruction_line st line = Inr st'"
    by (simp add: parse_line_def instruction_line_def)
  ultimately show "st_errors st' = st_errors st @
      [format_error
         (WrongArity (instr_name instruction) (length (instr_value instruction))
            (length (comma_split (drop 1 line))))
         (tok_line (line ! 0))]"
    using assms(3)
    by (auto simp: parse_instruction_line_def Let_def split: if_splits sum.splits)
qed

lemma ip_advance_on_arity_mismatch:
  "instruction_line
     [instruction_token ADD ''ADD'' 1, register_token R1 ''R1'' 1, syntax_token Comma '','' 1,
      register_token R2 ''R2'' 1]
   \<and> parse_line initial_state
         [instruction_token ADD ''ADD'' 1, register_token R1 ''R1'' 1,
          syntax_token Comma '','' 1, register_token R2 ''R2'' 1]
       = Inr \<lparr>st_instructions = [Instruction ADD [ArgRegister R1, ArgRegister R2]],
               st_symbol_table = Map.empty, st_ip = 32,
               st_errors = [Formatted (WrongArity ''ADD'' 3 2) 1]\<rparr>
   \<and> label_definition ''loop'' (label_line ''loop'' 2)
   \<and> (\<exists>st3.
         parse_lines initial_state
           [[instruction_token ADD ''ADD'' 1, register_token R1 ''R1'' 1,
             syntax_token Comma '','' 1, register_token R2 ''R2'' 1],
            label_line ''loop'' 2] = Inr st3
         \<and> st_symbol_table st3 ''loop'' = Some 33)"
  using ip_advance_on_completed_line
    [of "[instruction_token ADD ''ADD'' 1, register_token R1 ''R1'' 1,
          syntax_token Comma '','' 1, register_token R2 ''R2'' 1]"
        initial_state
        "\<lparr>st_instructions = [Instruction ADD [ArgRegister R1, ArgRegister R2]],
          st_symbol_table = Map.empty, st_ip = 32,
          st_errors = [Formatted (WrongArity ''ADD'' 3 2) 1]\<rparr>"
        ADD "[]"
        "\<lparr>st_instructions = [Instruction ADD [ArgRegister R1, ArgRegister R2]],
          st_symbol_table = Map.empty, st_ip = 32,
          st_errors = [Formatted (WrongArity ''ADD'' 3 2) 1]\<rparr>"
        "''loop''" "label_line ''loop'' 2"]
  by (simp add: example_defs token_defs operand_defs dispatcher_defs line_defs
        label_definition_def instruction_line_def)

subsection \<open>All or nothing\<close>

text \<open>
  \<^verbatim>\<open>parse\<close> returns a result only when no line of the file, up to any point, has put an
  error into \<^verbatim>\<open>errors\<close>; and when the loop reaches the end of the file with errors, it
  raises them as one collected failure.
\<close>

lemma parse_all_or_nothing:
  assumes "parse (before @ after) = Inr result"
  shows "\<exists>st. parse_lines initial_state before = Inr st \<and> st_errors st = []"
proof -
  from parse_Inr [OF assms] obtain stf where
    all: "parse_lines initial_state (before @ after) = Inr stf" and none: "st_errors stf = []"
    by auto
  from all obtain st where b: "parse_lines initial_state before = Inr st"
    and rest: "parse_lines st after = Inr stf"
    by (auto simp: parse_lines_append split: sum.splits)
  from parse_lines_errors [OF rest] none have "st_errors st = []" by auto
  with b show ?thesis by simp
qed

lemma parse_raises_collected_errors:
  "parse_lines initial_state tokens = Inr st \<Longrightarrow> st_errors st \<noteq> []
     \<Longrightarrow> parse tokens = Inl (collect_errors (st_errors st))"
  by (simp add: parse_def)

subsection \<open>Immediates\<close>

lemma parse_number_in_range:
  assumes "tok_type t = UINT \<or> tok_type t = STRING"
    and "numeric_value (tok_value t) = Some v" and "0 \<le> v" and "v \<le> num_MAX w"
  shows "parse_number w [t] line = Inr (SizedNumber w v)"
  using assms
  by (auto simp: parse_number_def extact_token_def empty_token_check_def
        extract_token_num_def token_type_check_def PositiveSizedNumber_def in_range_def
        numeric_value_def split: Value.splits)

lemma parse_number_int_overflow:
  assumes "tok_type t = UINT \<or> tok_type t = STRING"
    and "tok_value t = VInt (num_MAX w + 1)"
  shows "parse_number w [t] line =
           Inl (new_ParseError (NumberTooLarge (num_MAX w + 1) (num_MAX w) (tok_text t)) line)"
  using assms
  by (auto simp: parse_number_def extact_token_def empty_token_check_def
        extract_token_num_def token_type_check_def PositiveSizedNumber_def in_range_def)

subsection \<open>Pointer dereferences and shifts\<close>

lemma Register_parse_token_register:
  "tok_type t = REGISTER \<Longrightarrow> tok_value t = VRegister r \<Longrightarrow> Register_parse_token t line = Inr r"
  by (simp add: Register_parse_token_def parse_Register_def extact_token_def
        empty_token_check_def token_type_check_def)

lemma parse_PointerDeref_increment:
  assumes "tok_value lb = VSyntax LBracket" and "tok_value rb = VSyntax RBracket"
    and "tok_type rt = REGISTER" and "tok_value rt = VRegister r"
    and "tok_value plus_token = VSyntax Plus" and "inc \<noteq> []"
  shows "parse_PointerDeref (lb # rt # plus_token # inc @ [rb]) line =
           (case exception_chain [Uint16_parse_increment, Shift_parse_increment]
                   (new_ParseError (InvalidIncrement (concat (map tok_text inc))) line) inc line of
              Inl e \<Rightarrow> Inl e
            | Inr i \<Rightarrow> Inr (PointerDeref r i))"
  using assms
  by (simp add: parse_PointerDeref_def empty_token_check_def Register_parse_token_register)

section \<open>The claims\<close>

text \<open>
  Claim C1. The claim: a failure of the argument dispatcher on an instruction line is
  queued into the errors of the whole parse, so that a file with two lines, each malformed
  in its operands, gives one failure with an entry for each of the two lines. The code:
  nothing in \<^verbatim>\<open>parse\<close> catches what \<^verbatim>\<open>list(args)\<close> raises, so the failure of the
  first malformed line leaves \<^verbatim>\<open>parse\<close> at once. On the two lines
  \<^verbatim>\<open>ADD R1, R2, 5\<close> and \<^verbatim>\<open>ADD 7, R2, R3\<close> the failure raised lists the operand
  error of line 1 only; line 2 is never read.
\<close>

theorem parse_stops_at_first_malformed_line:
  "parse [ADD_line (register_token R1 ''R1'' 1) (register_token R2 ''R2'' 1)
            (uint_token 5 ''5'' 1) 1,
          ADD_line (uint_token 7 ''7'' 2) (register_token R2 ''R2'' 2)
            (register_token R3 ''R3'' 2) 2]
     = Inl (collect_errors [format_error (WrongToken ''5'' [REGISTER]) 1])"
  by (simp add: example_defs token_defs operand_defs dispatcher_defs line_defs)

text \<open>
  Claim C2. The claim: on a line with the wrong number of operand groups the arity error
  is recorded, the operands are still parsed, and their errors are reported in the final
  failure together with the arity error. The code: the arity error is appended to
  \<^verbatim>\<open>errors\<close> and the dispatcher runs, but its failure leaves \<^verbatim>\<open>parse\<close> at once and
  the arity error that was just recorded is lost. On the line \<^verbatim>\<open>ADD R1, 5\<close> (two
  groups for three positions) the failure raised holds the operand error alone.
\<close>

theorem arity_error_lost_when_operand_fails:
  "length (comma_split [register_token R1 ''R1'' 1, syntax_token Comma '','' 1,
                         uint_token 5 ''5'' 1]) = 2
   \<and> length (instr_value ADD) = 3
   \<and> parse [[instruction_token ADD ''ADD'' 1, register_token R1 ''R1'' 1,
              syntax_token Comma '','' 1, uint_token 5 ''5'' 1]]
       = Inl (collect_errors [format_error (WrongToken ''5'' [REGISTER]) 1])"
  by (simp add: example_defs token_defs operand_defs dispatcher_defs line_defs)

text \<open>
  Claim C3. For a line made of an instruction token and one comma token, the comma split
  yields one empty operand group; the dispatcher reads the line number of the first token
  of that group, which raises \<^verbatim>\<open>IndexError\<close>: no \<^verbatim>\<open>ParseError\<close>, in particular
  not the empty-operand one, and \<^verbatim>\<open>parse\<close> raises it too. This holds for every opcode
  whose first position has at least one operand type.
\<close>

theorem dispatcher_IndexError_on_empty_group:
  assumes "tok_type t = INSTRUCTION" and "tok_value t = VInstruction instruction"
    and "instr_value instruction = arg_types # rest"
    and "arg_types_tuple arg_types \<noteq> []"
    and "tok_type comma = SYNTAX" and "tok_value comma = VSyntax Comma"
  shows "comma_split (drop 1 [t, comma]) = [[]]
       \<and> parse_args (instr_value instruction) [[]] = Inl IndexError
       \<and> (\<forall>e. parse_args (instr_value instruction) [[]] \<noteq> Inl (ParseError e))
       \<and> parse [[t, comma]] = Inl IndexError"
proof -
  from assms(5,6) have split: "comma_split (drop 1 [t, comma]) = [[]]"
    by (simp add: comma_split_def)
  from assms(4) obtain c cs where "arg_types_tuple arg_types = c # cs"
    by (cases "arg_types_tuple arg_types") auto
  with assms(3) have args: "parse_args (instr_value instruction) [[]] = Inl IndexError"
    by (simp add: parse_args_def)
  from assms(1,2,6) split args have "parse_line initial_state [t, comma] = Inl IndexError"
    by (simp add: parse_line_def parse_instruction_line_def Let_def)
  then have "parse [[t, comma]] = Inl IndexError"
    by (simp add: parse_def)
  with split args show ?thesis by simp
qed

theorem dispatcher_IndexError_on_empty_group_witness:
  "tok_type (instruction_token ADD ''ADD'' 1) = INSTRUCTION
   \<and> tok_value (instruction_token ADD ''ADD'' 1) = VInstruction ADD
   \<and> instr_value ADD = Single TRegister # [Single TRegister, Single TRegister]
   \<and> arg_types_tuple (Single TRegister) \<noteq> []
   \<and> tok_type (syntax_token Comma '','' 1) = SYNTAX
   \<and> tok_value (syntax_token Comma '','' 1) = VSyntax Comma
   \<and> comma_split [syntax_token Comma '','' 1] = [[]]
   \<and> parse_args (instr_value ADD) [[]] = Inl IndexError
   \<and> parse [[instruction_token ADD ''ADD'' 1, syntax_token Comma '','' 1]] = Inl IndexError"
  using dispatcher_IndexError_on_empty_group
    [of "instruction_token ADD ''ADD'' 1" ADD "Single TRegister"
        "[Single TRegister, Single TRegister]" "syntax_token Comma '','' 1"]
  by (simp add: token_defs ADD_def arg_types_tuple_def)

text \<open>
  Claim C4. The claim: on every file on which an error is recorded \<^verbatim>\<open>parse\<close> returns
  no result and raises one aggregate failure. No result is ever returned then
  (\<open>parse_all_or_nothing\<close>), and a loop that reaches the end of the file raises the
  collected errors (\<open>parse_raises_collected_errors\<close>). But on the lines
  \<^verbatim>\<open>ADD R1, R2\<close> and \<^verbatim>\<open>ADD ,\<close> the arity error of line 1 is recorded and line 2
  then raises \<^verbatim>\<open>IndexError\<close>, which is what \<^verbatim>\<open>parse\<close> raises: no aggregate
  failure.
\<close>

theorem recorded_error_then_IndexError:
  "map_sum id st_errors
     (parse_lines initial_state
        [[instruction_token ADD ''ADD'' 1, register_token R1 ''R1'' 1,
          syntax_token Comma '','' 1, register_token R2 ''R2'' 1]])
     = Inr [format_error (WrongArity ''ADD'' 3 2) 1]
   \<and> parse [[instruction_token ADD ''ADD'' 1, register_token R1 ''R1'' 1,
              syntax_token Comma '','' 1, register_token R2 ''R2'' 1],
             [instruction_token ADD ''ADD'' 2, syntax_token Comma '','' 2]]
       = Inl IndexError"
  by (simp add: example_defs token_defs operand_defs dispatcher_defs line_defs)

text \<open>
  Claim C5. A label-definition line records the address \<open>ip + 1\<close> under the name of the
  label, where \<open>ip\<close> is the instruction pointer when the line is read. In particular, when
  the first line of a program is an instruction line that parses without error and the
  second line defines the label \<open>loop\<close>, the symbol table returned maps \<open>loop\<close> to 33.
\<close>

theorem label_address_is_ip_plus_one:
  "(label_definition name line \<longrightarrow>
      parse_line st line =
        Inr (st\<lparr>st_symbol_table := (st_symbol_table st)(name \<mapsto> st_ip st + 1)\<rparr>))
   \<and> (instruction_line first \<and> parse_line initial_state first = Inr st1 \<and> st_errors st1 = []
        \<and> label_definition ''loop'' second \<longrightarrow>
      (\<exists>result. parse [first, second] = Inr result \<and> symbol_table result ''loop'' = Some 33))"
proof (intro conjI impI)
  assume "label_definition name line"
  then show "parse_line st line =
      Inr (st\<lparr>st_symbol_table := (st_symbol_table st)(name \<mapsto> st_ip st + 1)\<rparr>)"
    by (rule parse_line_label_definition)
next
  assume a: "instruction_line first \<and> parse_line initial_state first = Inr st1
    \<and> st_errors st1 = [] \<and> label_definition ''loop'' second"
  then have ip: "st_ip st1 = 32"
    using parse_line_instruction [of first initial_state st1] by (simp add: initial_state_def)
  from a have "parse_line st1 second =
      Inr (st1\<lparr>st_symbol_table := (st_symbol_table st1)(''loop'' \<mapsto> st_ip st1 + 1)\<rparr>)"
    by (simp add: parse_line_label_definition)
  with a ip show "\<exists>result. parse [first, second] = Inr result
      \<and> symbol_table result ''loop'' = Some 33"
    by (simp add: parse_def)
qed

theorem label_address_is_ip_plus_one_witness:
  "label_definition ''loop'' (label_line ''loop'' 2)
   \<and> instruction_line
        (ADD_line (register_token R1 ''R1'' 1) (register_token R2 ''R2'' 1)
           (register_token R3 ''R3'' 1) 1)
   \<and> parse_line initial_state
        (ADD_line (register_token R1 ''R1'' 1) (register_token R2 ''R2'' 1)
           (register_token R3 ''R3'' 1) 1)
       = Inr \<lparr>st_instructions =
                 [Instruction ADD [ArgRegister R1, ArgRegister R2, ArgRegister R3]],
               st_symbol_table = Map.empty, st_ip = 32, st_errors = []\<rparr>
   \<and> parse_line initial_state (label_line ''loop'' 2) =
        Inr (initial_state\<lparr>st_symbol_table := [''loop'' \<mapsto> 1]\<rparr>)
   \<and> (\<exists>result.
         parse [ADD_line (register_token R1 ''R1'' 1) (register_token R2 ''R2'' 1)
                  (register_token R3 ''R3'' 1) 1,
                label_line ''loop'' 2] = Inr result
         \<and> symbol_table result ''loop'' = Some 33)"
  using label_address_is_ip_plus_one
    [of "''loop''" "label_line ''loop'' 2" initial_state
        "ADD_line (register_token R1 ''R1'' 1) (register_token R2 ''R2'' 1)
           (register_token R3 ''R3'' 1) 1"
        "\<lparr>st_instructions =
            [Instruction ADD [ArgRegister R1, ArgRegister R2, ArgRegister R3]],
          st_symbol_table = Map.empty, st_ip = 32, st_errors = []\<rparr>"
        "label_line ''loop'' 2"]
  by (simp add: example_defs token_defs operand_defs dispatcher_defs line_defs
        label_definition_def instruction_line_def)

text \<open>
  Claim C6. The claim: every instruction line advances the instruction pointer by 32
  before the arity is checked and the operands are parsed, also a malformed line, so that
  a label defined on a later line records an address that counts these 32. The code: the
  pointer goes up first, and on a line that the loop gets past the claim holds, arity
  errors included (\<open>ip_advance_on_completed_line\<close>). But when the operands of the line
  fail to parse, the failure of the dispatcher leaves \<^verbatim>\<open>parse\<close> with the advanced
  pointer: on the lines \<^verbatim>\<open>ADD R1, R2, 5\<close> and \<^verbatim>\<open>loop:\<close> the loop stops on line 1,
  the label of line 2 is never read and no address is recorded for it.
\<close>

theorem operand_failure_leaves_later_label_unread:
  "instruction_line
     (ADD_line (register_token R1 ''R1'' 1) (register_token R2 ''R2'' 1)
        (uint_token 5 ''5'' 1) 1)
   \<and> label_definition ''loop'' (label_line ''loop'' 2)
   \<and> parse_line initial_state
         (ADD_line (register_token R1 ''R1'' 1) (register_token R2 ''R2'' 1)
            (uint_token 5 ''5'' 1) 1)
       = Inl (collect_errors [format_error (WrongToken ''5'' [REGISTER]) 1])
   \<and> parse_lines initial_state
         [ADD_line (register_token R1 ''R1'' 1) (register_token R2 ''R2'' 1)
            (uint_token 5 ''5'' 1) 1,
          label_line ''loop'' 2]
       = Inl (collect_errors [format_error (WrongToken ''5'' [REGISTER]) 1])
   \<and> parse
         [ADD_line (register_token R1 ''R1'' 1) (register_token R2 ''R2'' 1)
            (uint_token 5 ''5'' 1) 1,
          label_line ''loop'' 2]
       = Inl (collect_errors [format_error (WrongToken ''5'' [REGISTER]) 1])"
  by (simp add: example_defs token_defs operand_defs dispatcher_defs line_defs
        label_definition_def instruction_line_def)

text \<open>
  Claim C7. When a file defines a label twice and \<^verbatim>\<open>parse\<close> returns a result, the
  symbol table of the result maps the name to the address recorded by the later
  definition, the one that no further definition of the name follows: reading the later
  line overwrites the entry that was there, records \<open>ip + 1\<close> and raises nothing.
\<close>

theorem later_label_definition_overwrites:
  assumes "parse (before @ [later] @ after) = Inr result"
    and "earlier \<in> set before" and "label_definition name earlier"
    and "label_definition name later"
    and "\<forall>l \<in> set after. \<not> label_definition name l"
  shows "\<exists>st. parse_lines initial_state before = Inr st
          \<and> st_symbol_table st name \<noteq> None
          \<and> parse_line st later =
                Inr (st\<lparr>st_symbol_table := (st_symbol_table st)(name \<mapsto> st_ip st + 1)\<rparr>)
          \<and> st_ip st = 32 * int (length (filter instruction_line before))
          \<and> symbol_table result name = Some (st_ip st + 1)"
proof -
  from parse_Inr [OF assms(1)] obtain stf where
    all: "parse_lines initial_state (before @ [later] @ after) = Inr stf"
    and res: "symbol_table result = st_symbol_table stf"
    by auto
  from all obtain st where b: "parse_lines initial_state before = Inr st"
    and rest: "parse_lines st ([later] @ after) = Inr stf"
    by (auto simp: parse_lines_append split: sum.splits)
  let ?st1 = "st\<lparr>st_symbol_table := (st_symbol_table st)(name \<mapsto> st_ip st + 1)\<rparr>"
  from assms(4) have l: "parse_line st later = Inr ?st1"
    by (rule parse_line_label_definition)
  with rest have "parse_lines ?st1 after = Inr stf" by simp
  from parse_lines_other_names [OF this assms(5)]
  have "st_symbol_table stf name = Some (st_ip st + 1)" by simp
  moreover from parse_lines_defined [OF b assms(2,3)]
  have "st_symbol_table st name \<noteq> None" .
  moreover from parse_lines_ip [OF b]
  have "st_ip st = 32 * int (length (filter instruction_line before))"
    by (simp add: initial_state_def)
  ultimately show ?thesis using b l res by simp
qed

theorem later_label_definition_overwrites_witness:
  "parse ([label_line ''a'' 1,
           ADD_line (register_token R1 ''R1'' 2) (register_token R2 ''R2'' 2)
             (register_token R3 ''R3'' 2) 2]
          @ [label_line ''a'' 3] @ [label_line ''b'' 4])
     = Inr \<lparr>instructions = [Instruction ADD [ArgRegister R1, ArgRegister R2, ArgRegister R3]],
             symbol_table = [''a'' \<mapsto> 33, ''b'' \<mapsto> 33]\<rparr>
   \<and> label_definition ''a'' (label_line ''a'' 1)
   \<and> label_definition ''a'' (label_line ''a'' 3)
   \<and> \<not> label_definition ''a'' (label_line ''b'' 4)
   \<and> symbol_table
         \<lparr>instructions = [Instruction ADD [ArgRegister R1, ArgRegister R2, ArgRegister R3]],
           symbol_table = [''a'' \<mapsto> 33, ''b'' \<mapsto> 33]\<rparr> ''a''
       = Some (32 * int (length (filter instruction_line
           [label_line ''a'' 1,
            ADD_line (register_token R1 ''R1'' 2) (register_token R2 ''R2'' 2)
              (register_token R3 ''R3'' 2) 2])) + 1)"
  using later_label_definition_overwrites
    [of "[label_line ''a'' 1,
          ADD_line (register_token R1 ''R1'' 2) (register_token R2 ''R2'' 2)
            (register_token R3 ''R3'' 2) 2]"
        "label_line ''a'' 3" "[label_line ''b'' 4]"
        "\<lparr>instructions = [Instruction ADD [ArgRegister R1, ArgRegister R2, ArgRegister R3]],
          symbol_table = [''a'' \<mapsto> 33, ''b'' \<mapsto> 33]\<rparr>"
        "label_line ''a'' 1" "''a''"]
  by (simp add: example_defs token_defs operand_defs dispatcher_defs line_defs
        label_definition_def instruction_line_def)

text \<open>
  Claim C8. The claim: an immediate given as one UINT or STRING token with numeric value
  \<open>v\<close> parses to \<open>v\<close> when \<open>0 \<le> v \<le> MAX(width)\<close>, and fails with the number-too-large
  error when \<open>v = MAX(width) + 1\<close>. The first half holds (\<open>parse_number_in_range\<close>), and
  the second holds for an integer payload (\<open>parse_number_int_overflow\<close>). For a string
  payload the handler of the overflow fails its own assertion that the payload is an int:
  the STRING token \<open>65536\<close> at width 16 raises \<^verbatim>\<open>AssertionError\<close>.
\<close>

theorem string_overflow_fails_assertion:
  "numeric_value (tok_value (string_token ''65536'' ''65536'' 1)) = Some (num_MAX 16 + 1)
   \<and> parse_number 16 [string_token ''65536'' ''65536'' 1] 1 = Inl AssertionError"
  by (simp add: token_defs operand_defs numeric_value_def)

text \<open>
  Claim C9. The pointer-dereference parser on the examples of the spec: \<^verbatim>\<open>[R1]\<close> gives
  register R1 with increment 0, \<^verbatim>\<open>[R1 + 5]\<close> gives increment 5, and
  \<^verbatim>\<open>[R1 + R2 << 3]\<close> gives the shift of R2 to the left by 3 as increment. In general,
  for tokens between the plus sign and the closing bracket: when they parse as a 16-bit
  immediate, that is the increment; when that fails and they parse as a shift, the shift is
  the increment; and the invalid-increment failure is raised exactly when both fail.
\<close>

theorem parse_PointerDeref_round_trip:
  "parse_PointerDeref
     [syntax_token LBracket ''['' l, register_token R1 ''R1'' l, syntax_token RBracket '']'' l] l
     = Inr (PointerDeref R1 (IncNumber (SizedNumber 16 0)))
   \<and> parse_PointerDeref
       [syntax_token LBracket ''['' l, register_token R1 ''R1'' l, syntax_token Plus ''+'' l,
        uint_token 5 ''5'' l, syntax_token RBracket '']'' l] l
     = Inr (PointerDeref R1 (IncNumber (SizedNumber 16 5)))
   \<and> parse_PointerDeref
       [syntax_token LBracket ''['' l, register_token R1 ''R1'' l, syntax_token Plus ''+'' l,
        register_token R2 ''R2'' l, syntax_token ShiftLeft ''<<'' l, uint_token 3 ''3'' l,
        syntax_token RBracket '']'' l] l
     = Inr (PointerDeref R1 (IncShift (Shift Shl R2 (SizedNumber 5 3))))
   \<and> (tok_value lb = VSyntax LBracket \<and> tok_value rb = VSyntax RBracket
        \<and> tok_type rt = REGISTER \<and> tok_value rt = VRegister r
        \<and> tok_value plus_token = VSyntax Plus \<and> inc \<noteq> [] \<longrightarrow>
      (\<forall>n. parse_number 16 inc line = Inr n \<longrightarrow>
         parse_PointerDeref (lb # rt # plus_token # inc @ [rb]) line
           = Inr (PointerDeref r (IncNumber n)))
      \<and> (\<forall>e s. parse_number 16 inc line = Inl (ParseError e) \<and> parse_Shift inc line = Inr s
             \<longrightarrow> parse_PointerDeref (lb # rt # plus_token # inc @ [rb]) line
                   = Inr (PointerDeref r (IncShift s)))
      \<and> ((parse_PointerDeref (lb # rt # plus_token # inc @ [rb]) line
             = Inl (new_ParseError (InvalidIncrement (concat (map tok_text inc))) line))
           = ((\<exists>e. parse_number 16 inc line = Inl (ParseError e))
              \<and> (\<exists>e. parse_Shift inc line = Inl (ParseError e)))))"
proof (intro conjI impI)
  show "parse_PointerDeref
     [syntax_token LBracket ''['' l, register_token R1 ''R1'' l, syntax_token RBracket '']'' l] l
     = Inr (PointerDeref R1 (IncNumber (SizedNumber 16 0)))"
    by (simp add: token_defs operand_defs)
  show "parse_PointerDeref
       [syntax_token LBracket ''['' l, register_token R1 ''R1'' l, syntax_token Plus ''+'' l,
        uint_token 5 ''5'' l, syntax_token RBracket '']'' l] l
     = Inr (PointerDeref R1 (IncNumber (SizedNumber 16 5)))"
    by (simp add: token_defs operand_defs)
  show "parse_PointerDeref
       [syntax_token LBracket ''['' l, register_token R1 ''R1'' l, syntax_token Plus ''+'' l,
        register_token R2 ''R2'' l, syntax_token ShiftLeft ''<<'' l, uint_token 3 ''3'' l,
        syntax_token RBracket '']'' l] l
     = Inr (PointerDeref R1 (IncShift (Shift Shl R2 (SizedNumber 5 3))))"
    by (simp add: token_defs operand_defs)
next
  assume a: "tok_value lb = VSyntax LBracket \<and> tok_value rb = VSyntax RBracket
        \<and> tok_type rt = REGISTER \<and> tok_value rt = VRegister r
        \<and> tok_value plus_token = VSyntax Plus \<and> inc \<noteq> []"
  then have eq: "parse_PointerDeref (lb # rt # plus_token # inc @ [rb]) line =
           (case exception_chain [Uint16_parse_increment, Shift_parse_increment]
                   (new_ParseError (InvalidIncrement (concat (map tok_text inc))) line) inc line of
              Inl e \<Rightarrow> Inl e
            | Inr i \<Rightarrow> Inr (PointerDeref r i))"
    by (simp add: parse_PointerDeref_increment)
  show "\<forall>n. parse_number 16 inc line = Inr n \<longrightarrow>
         parse_PointerDeref (lb # rt # plus_token # inc @ [rb]) line
           = Inr (PointerDeref r (IncNumber n))"
    by (simp add: eq Uint16_parse_increment_def)
  show "\<forall>e s. parse_number 16 inc line = Inl (ParseError e) \<and> parse_Shift inc line = Inr s
             \<longrightarrow> parse_PointerDeref (lb # rt # plus_token # inc @ [rb]) line
                   = Inr (PointerDeref r (IncShift s))"
    by (simp add: eq Uint16_parse_increment_def Shift_parse_increment_def)
  show "(parse_PointerDeref (lb # rt # plus_token # inc @ [rb]) line
             = Inl (new_ParseError (InvalidIncrement (concat (map tok_text inc))) line))
           = ((\<exists>e. parse_number 16 inc line = Inl (ParseError e))
              \<and> (\<exists>e. parse_Shift inc line = Inl (ParseError e)))"
    by (cases "parse_number 16 inc line"; cases "parse_Shift inc line")
       (auto simp: eq Uint16_parse_increment_def Shift_parse_increment_def new_ParseError_def
          split: Exception.splits)
qed

theorem parse_PointerDeref_round_trip_witness:
  "tok_value (syntax_token LBracket ''['' 1) = VSyntax LBracket
   \<and> tok_value (syntax_token RBracket '']'' 1) = VSyntax RBracket
   \<and> tok_type (register_token R1 ''R1'' 1) = REGISTER
   \<and> tok_value (register_token R1 ''R1'' 1) = VRegister R1
   \<and> tok_value (syntax_token Plus ''+'' 1) = VSyntax Plus
   \<and> parse_number 16 [register_token R2 ''R2'' 1, syntax_token ShiftLeft ''<<'' 1,
                         uint_token 3 ''3'' 1] 1
       = Inl (ParseError (Formatted (ExtraText ''<<3'') 1))
   \<and> parse_Shift [register_token R2 ''R2'' 1, syntax_token ShiftLeft ''<<'' 1,
                    uint_token 3 ''3'' 1] 1
       = Inr (Shift Shl R2 (SizedNumber 5 3))
   \<and> parse_PointerDeref
        (syntax_token LBracket ''['' 1 # register_token R1 ''R1'' 1 # syntax_token Plus ''+'' 1
           # [register_token R2 ''R2'' 1, syntax_token ShiftLeft ''<<'' 1, uint_token 3 ''3'' 1]
           @ [syntax_token RBracket '']'' 1]) 1
       = Inr (PointerDeref R1 (IncShift (Shift Shl R2 (SizedNumber 5 3))))"
  using parse_PointerDeref_round_trip
    [of 1 "syntax_token LBracket ''['' 1" "syntax_token RBracket '']'' 1"
        "register_token R1 ''R1'' 1" R1 "syntax_token Plus ''+'' 1"
        "[register_token R2 ''R2'' 1, syntax_token ShiftLeft ''<<'' 1, uint_token 3 ''3'' 1]" 1]
  by (simp add: token_defs operand_defs)

text \<open>
  Claim C10, as stated: every slice whose second token is neither shift operator fails
  with the invalid-operator error. It fails on the slice \<^verbatim>\<open>5 + 6\<close>: the first token
  is parsed as a register before the operator is looked at, and the failure is the
  wrong-token one.
\<close>

theorem parse_Shift_operator_counterexample:
  "tok_value ([uint_token 5 ''5'' 1, syntax_token Plus ''+'' 1, uint_token 6 ''6'' 1] ! 1)
     \<notin> {VSyntax ShiftRight, VSyntax ShiftLeft}
   \<and> parse_Shift [uint_token 5 ''5'' 1, syntax_token Plus ''+'' 1, uint_token 6 ''6'' 1] 1
       = Inl (new_ParseError (WrongToken ''5'' [REGISTER]) 1)
   \<and> parse_Shift [uint_token 5 ''5'' 1, syntax_token Plus ''+'' 1, uint_token 6 ''6'' 1] 1
       \<noteq> Inl (new_ParseError (InvalidOperator ''+'') 1)"
  by (simp add: token_defs operand_defs)

text \<open>
  Claim C10, amended: a slice of exactly one register token R parses to the shift of R to
  the left by 0; and every slice whose first token is a register token and whose second
  token is neither shift operator fails with the invalid-operator error, which names the
  text of the second token.
\<close>

theorem parse_Shift_default_and_operator:
  assumes "tok_type t = REGISTER" and "tok_value t = VRegister r"
  shows "parse_Shift [t] line = Inr (Shift Shl r (SizedNumber 5 0))
       \<and> (tok_value t2 \<notin> {VSyntax ShiftRight, VSyntax ShiftLeft} \<longrightarrow>
            parse_Shift (t # t2 # rest) line
              = Inl (new_ParseError (InvalidOperator (tok_text t2)) line))"
  using assms
  by (simp add: parse_Shift_def empty_token_check_def Register_parse_token_register)

theorem parse_Shift_default_and_operator_witness:
  "tok_type (register_token R1 ''R1'' 1) = REGISTER
   \<and> tok_value (register_token R1 ''R1'' 1) = VRegister R1
   \<and> tok_value (syntax_token Plus ''+'' 1) \<notin> {VSyntax ShiftRight, VSyntax ShiftLeft}
   \<and> parse_Shift [register_token R1 ''R1'' 1] 1 = Inr (Shift Shl R1 (SizedNumber 5 0))
   \<and> parse_Shift (register_token R1 ''R1'' 1 # syntax_token Plus ''+'' 1 # [uint_token 6 ''6'' 1]) 1
       = Inl (new_ParseError (InvalidOperator ''+'') 1)"
  using parse_Shift_default_and_operator
    [of "register_token R1 ''R1'' 1" R1 1 "syntax_token Plus ''+'' 1" "[uint_token 6 ''6'' 1]"]
  by (simp add: token_defs)

end
